theory Spec2Isabelle
  imports Complex_Main "HOL-Library.Sublist"
begin

section \<open>JavaScript values\<close>

text \<open>
  The script computes with JavaScript numbers and, at one place, with \<open>undefined\<close>.
  A finite number is modelled by the real it denotes; the two zeros are one value. The
  non-finite numbers and \<open>undefined\<close> are constructors of their own, so that a division
  by zero or an addition to \<open>undefined\<close> gives what JavaScript gives, not what HOL's total
  operators give.

  The operator \<open>+\<close>, which the frame callback applies to its own earlier result, frame
  after frame, rounds the sum of two numbers to the nearest double, ties to even, as IEEE
  754 addition does, and a decimal literal that it adds denotes the double nearest to the
  decimal. The arithmetic of the scene's construction and of the resize handler, where
  each result is computed once from values of the host, is modelled by the operations on
  the reals, without rounding.
\<close>

datatype jsval = Num real | PosInf | NegInf | NaN | Undefined

text \<open>
  Rounding to double precision. \<open>round_half_even\<close> is the nearest integer, the even one
  of two that are equally near. The exponent of a number \<open>x\<close> is that of the binade
  \<open>[2^e, 2^(e+1))\<close> in which \<open>\<bar>x\<bar>\<close> lies, and not less than \<open>-1022\<close> (below, the numbers
  are subnormal); its unit in the last place is \<open>2^(e - 52)\<close>, and \<open>x\<close> is rounded to the
  nearest multiple of it. A result of magnitude \<open>2^1024\<close> or more is an infinity.
\<close>

definition round_half_even :: "real \<Rightarrow> int" where
  "round_half_even y =
     (let f = \<lfloor>y\<rfloor>; d = y - of_int f
      in if d < 1 / 2 then f else if 1 / 2 < d then f + 1 else if even f then f else f + 1)"

definition double_exponent :: "real \<Rightarrow> int" where
  "double_exponent x = max \<lfloor>log 2 \<bar>x\<bar>\<rfloor> (- 1022)"

definition double_ulp :: "real \<Rightarrow> real" where
  "double_ulp x = 2 powr of_int (double_exponent x - 52)"

definition double_overflow :: real where
  "double_overflow = 2 ^ 1024"

definition round_double :: "real \<Rightarrow> jsval" where
  "round_double x =
     (if x = 0 then Num 0
      else let r = of_int (round_half_even (x / double_ulp x)) * double_ulp x
           in if double_overflow \<le> \<bar>r\<bar> then (if 0 < x then PosInf else NegInf) else Num r)"

text \<open>ToNumber: \<open>undefined\<close> becomes NaN, a number stays.\<close>

fun js_to_number :: "jsval \<Rightarrow> jsval" where
  "js_to_number Undefined = NaN"
| "js_to_number v = v"

fun num_add :: "jsval \<Rightarrow> jsval \<Rightarrow> jsval" where
  "num_add (Num a) (Num b) = round_double (a + b)"
| "num_add NaN _ = NaN"
| "num_add _ NaN = NaN"
| "num_add Undefined _ = NaN"
| "num_add _ Undefined = NaN"
| "num_add PosInf NegInf = NaN"
| "num_add NegInf PosInf = NaN"
| "num_add PosInf _ = PosInf"
| "num_add _ PosInf = PosInf"
| "num_add NegInf _ = NegInf"
| "num_add _ NegInf = NegInf"

text \<open>The operator \<open>+\<close> on two values that are numbers or \<open>undefined\<close>.\<close>

definition js_add :: "jsval \<Rightarrow> jsval \<Rightarrow> jsval" where
  "js_add a b = num_add (js_to_number a) (js_to_number b)"

text \<open>The literal \<open>0.0005\<close> of the frame callback: the double nearest to \<open>5/10000\<close>.\<close>

definition angle_step :: jsval where
  "angle_step = round_double (5 / 10000)"

text \<open>
  The operator \<open>/\<close> on the viewport's width and height, which the host gives as
  non-negative integers: a zero divisor gives Infinity or NaN.
\<close>

definition js_div :: "nat \<Rightarrow> nat \<Rightarrow> jsval" where
  "js_div a b = (if b = 0 then (if a = 0 then NaN else PosInf) else Num (real a / real b))"

text \<open>\<open>Math.react\<close>: \<open>Math\<close> has no such property, so reading it gives \<open>undefined\<close>.\<close>

definition math_react :: jsval where
  "math_react = Undefined"

definition in_range :: "real \<Rightarrow> real \<Rightarrow> jsval \<Rightarrow> bool" where
  "in_range lo hi v = (case v of Num r \<Rightarrow> lo \<le> r \<and> r \<le> hi | _ \<Rightarrow> False)"

section \<open>The objects of the 3D library\<close>

record vector3 =
  vx :: real
  vy :: real
  vz :: real

record euler =
  ex :: jsval
  ey :: jsval
  ez :: jsval

record geometry =
  geo_radius :: real
  geo_detail :: nat

record material =
  mat_color :: nat
  mat_metalness :: real
  mat_roughness :: real

record mesh =
  m_geometry :: geometry
  m_material :: material
  m_position :: vector3
  m_rotation :: euler
  m_scale :: vector3

record group3d =
  g_rotation :: euler
  g_children :: "mesh list"

record camera3d =
  c_fov :: real
  c_aspect :: jsval
  c_near :: real
  c_far :: real
  c_position :: vector3
  c_projection_aspect :: jsval

record renderer3d =
  r_alpha :: bool
  r_width :: nat
  r_height :: nat
  r_pixel_ratio :: real
  r_clear_color :: nat
  r_clear_alpha :: real
  r_frames :: nat

text \<open>
  The scene holds the group by reference: \<open>GroupObject\<close> stands for the one group
  object that the module variable \<open>group\<close> also names.
\<close>

datatype scene_object = GroupObject | AmbientLight nat real | PointLight nat real vector3

record scene3d =
  s_objects :: "scene_object list"

definition zero_vector :: vector3 where
  "zero_vector = \<lparr>vx = 0, vy = 0, vz = 0\<rparr>"

definition zero_euler :: euler where
  "zero_euler = \<lparr>ex = Num 0, ey = Num 0, ez = Num 0\<rparr>"

section \<open>Host environment, errors and module state\<close>

text \<open>
  The calls that construct a library object, and the call that renders a frame, can throw
  (the library is not loaded, no WebGL context can be had). The host decides which; a
  call site inside the particle loop carries the loop index. A method that only writes
  fields of an object already built (\<open>set\<close>, \<open>setSize\<close>, \<open>setPixelRatio\<close>,
  \<open>setClearColor\<close>, \<open>add\<close>, \<open>updateProjectionMatrix\<close>) and the registrations with the
  host (\<open>addEventListener\<close>, \<open>requestAnimationFrame\<close>) do not throw.
\<close>

datatype site =
    NewScene | NewCamera | NewRenderer | NewGroup | NewGeometry | NewMaterial
  | NewMesh nat | NewAmbientLight | NewPointLight | Render

datatype js_error = TypeError | SyntaxError | LibraryError site | FirebaseError | Error string

datatype log_entry = LogError string "js_error option"

record env =
  canvas_present :: bool
  canvas_width :: nat
  canvas_height :: nat
  innerWidth :: nat
  innerHeight :: nat
  devicePixelRatio :: real
  random :: "nat \<Rightarrow> real"
  lib_fails :: "site \<Rightarrow> bool"

text \<open>
  The module variables \<open>scene\<close>, \<open>camera\<close>, \<open>renderer\<close>, \<open>group\<close> (\<open>None\<close> is
  \<open>undefined\<close>; \<open>particles\<close> is declared and never assigned), and the host state the
  script writes: the console, the canvas's \<open>display: none\<close>, the resize listener, the
  pending animation-frame requests, the number of \<open>Math.random()\<close> draws made, and the
  trace of the library calls attempted.
\<close>

record gstate =
  scene :: "scene3d option"
  camera :: "camera3d option"
  renderer :: "renderer3d option"
  group :: "group3d option"
  console :: "log_entry list"
  canvas_hidden :: bool
  resize_listener :: bool
  frame_requests :: nat
  draws :: nat
  calls :: "site list"

definition initial_state :: gstate where
  "initial_state = \<lparr>scene = None, camera = None, renderer = None, group = None,
     console = [], canvas_hidden = False, resize_listener = False, frame_requests = 0,
     draws = 0, calls = []\<rparr>"

text \<open>A statement runs on the state and either throws or gives a value.\<close>

type_synonym 'a prog = "gstate \<Rightarrow> (js_error + 'a) \<times> gstate"

definition bind_prog :: "'a prog \<Rightarrow> ('a \<Rightarrow> 'b prog) \<Rightarrow> 'b prog" where
  "bind_prog m f s = (case m s of (Inl e, s') \<Rightarrow> (Inl e, s') | (Inr v, s') \<Rightarrow> f v s')"

definition andthen :: "unit prog \<Rightarrow> 'b prog \<Rightarrow> 'b prog" where
  "andthen m n = bind_prog m (\<lambda>_. n)"

definition modify :: "(gstate \<Rightarrow> gstate) \<Rightarrow> unit prog" where
  "modify f s = (Inr (), f s)"

definition lib :: "env \<Rightarrow> site \<Rightarrow> 'a \<Rightarrow> 'a prog" where
  "lib e c v s =
     (let s' = s\<lparr>calls := calls s @ [c]\<rparr>
      in if lib_fails e c then (Inl (LibraryError c), s') else (Inr v, s'))"

definition math_random :: "env \<Rightarrow> real prog" where
  "math_random e s = (Inr (random e (draws s)), s\<lparr>draws := draws s + 1\<rparr>)"

text \<open>A property access or method call on a module variable throws a TypeError when the variable is \<open>undefined\<close>.\<close>

definition on_scene :: "(scene3d \<Rightarrow> scene3d) \<Rightarrow> unit prog" where
  "on_scene f s = (case scene s of None \<Rightarrow> (Inl TypeError, s)
     | Some x \<Rightarrow> (Inr (), s\<lparr>scene := Some (f x)\<rparr>))"

definition on_camera :: "(camera3d \<Rightarrow> camera3d) \<Rightarrow> unit prog" where
  "on_camera f s = (case camera s of None \<Rightarrow> (Inl TypeError, s)
     | Some x \<Rightarrow> (Inr (), s\<lparr>camera := Some (f x)\<rparr>))"

definition on_renderer :: "(renderer3d \<Rightarrow> renderer3d) \<Rightarrow> unit prog" where
  "on_renderer f s = (case renderer s of None \<Rightarrow> (Inl TypeError, s)
     | Some x \<Rightarrow> (Inr (), s\<lparr>renderer := Some (f x)\<rparr>))"

definition on_group :: "(group3d \<Rightarrow> group3d) \<Rightarrow> unit prog" where
  "on_group f s = (case group s of None \<Rightarrow> (Inl TypeError, s)
     | Some x \<Rightarrow> (Inr (), s\<lparr>group := Some (f x)\<rparr>))"

section \<open>Building the scene: \<open>init3DBackground\<close>\<close>

definition init_scene :: "env \<Rightarrow> unit prog" where
  "init_scene e =
     bind_prog (lib e NewScene \<lparr>s_objects = []\<rparr>) (\<lambda>sc.
       modify (\<lambda>s. s\<lparr>scene := Some sc\<rparr>))"

text \<open>\<open>new THREE.PerspectiveCamera(75, innerWidth / innerHeight, 0.1, 1000)\<close>; the constructor computes the projection from the aspect it is given.\<close>

definition new_camera :: "env \<Rightarrow> camera3d" where
  "new_camera e =
     \<lparr>c_fov = 75, c_aspect = js_div (innerWidth e) (innerHeight e), c_near = 1 / 10,
      c_far = 1000, c_position = zero_vector,
      c_projection_aspect = js_div (innerWidth e) (innerHeight e)\<rparr>"

definition init_camera :: "env \<Rightarrow> unit prog" where
  "init_camera e =
     bind_prog (lib e NewCamera (new_camera e)) (\<lambda>cam.
       andthen (modify (\<lambda>s. s\<lparr>camera := Some cam\<rparr>))
         (on_camera (\<lambda>c. c\<lparr>c_position := (c_position c)\<lparr>vz := 15\<rparr>\<rparr>)))"

text \<open>A new renderer takes the canvas's own size, pixel ratio 1 and, with \<open>alpha: true\<close>, a transparent black clear colour.\<close>

definition new_renderer :: "env \<Rightarrow> renderer3d" where
  "new_renderer e =
     \<lparr>r_alpha = True, r_width = canvas_width e, r_height = canvas_height e,
      r_pixel_ratio = 1, r_clear_color = 0, r_clear_alpha = 0, r_frames = 0\<rparr>"

definition set_size :: "env \<Rightarrow> unit prog" where
  "set_size e = on_renderer (\<lambda>r. r\<lparr>r_width := innerWidth e, r_height := innerHeight e\<rparr>)"

definition set_pixel_ratio :: "env \<Rightarrow> unit prog" where
  "set_pixel_ratio e = on_renderer (\<lambda>r. r\<lparr>r_pixel_ratio := min (devicePixelRatio e) 2\<rparr>)"

text \<open>The clear colour is \<open>0x0A192F\<close>.\<close>

definition init_renderer :: "env \<Rightarrow> unit prog" where
  "init_renderer e =
     bind_prog (lib e NewRenderer (new_renderer e)) (\<lambda>ren.
       andthen (modify (\<lambda>s. s\<lparr>renderer := Some ren\<rparr>))
      (andthen (set_size e)
      (andthen (set_pixel_ratio e)
               (on_renderer (\<lambda>r. r\<lparr>r_clear_color := 661807, r_clear_alpha := 1\<rparr>)))))"

definition particleCount :: nat where
  "particleCount = 500"

text \<open>\<open>new THREE.OctahedronGeometry(0.1, 0)\<close> and the amber material, colour \<open>0xF59E0B\<close>.\<close>

definition octahedron :: geometry where
  "octahedron = \<lparr>geo_radius = 1 / 10, geo_detail = 0\<rparr>"

definition amber :: material where
  "amber = \<lparr>mat_color = 16096779, mat_metalness = 1 / 10, mat_roughness = 1 / 2\<rparr>"

definition new_mesh :: "geometry \<Rightarrow> material \<Rightarrow> mesh" where
  "new_mesh geo mat =
     \<lparr>m_geometry = geo, m_material = mat, m_position = zero_vector,
      m_rotation = zero_euler, m_scale = \<lparr>vx = 1, vy = 1, vz = 1\<rparr>\<rparr>"

text \<open>
  The transforms one loop iteration sets on its particle, from the six random draws in
  the order the source makes them: three for the position, two for the rotation (the
  middle argument of \<open>rotation.set\<close> is \<open>Math.react\<close>, no draw), one for the scale.
\<close>

definition place_particle :: "mesh \<Rightarrow> real \<Rightarrow> real \<Rightarrow> real \<Rightarrow> real \<Rightarrow> real \<Rightarrow> real \<Rightarrow> mesh" where
  "place_particle p r1 r2 r3 r4 r5 r6 =
     p\<lparr>m_position := \<lparr>vx = (r1 - 1 / 2) * 50, vy = (r2 - 1 / 2) * 50, vz = (r3 - 1 / 2) * 50\<rparr>,
       m_rotation := \<lparr>ex = Num (r4 * pi), ey = math_react, ez = Num (r5 * pi)\<rparr>,
       m_scale := \<lparr>vx = r6 * (1 / 2) + 1 / 2, vy = r6 * (1 / 2) + 1 / 2, vz = r6 * (1 / 2) + 1 / 2\<rparr>\<rparr>"

definition particle_iter :: "env \<Rightarrow> geometry \<Rightarrow> material \<Rightarrow> nat \<Rightarrow> unit prog" where
  "particle_iter e geo mat i =
     bind_prog (lib e (NewMesh i) (new_mesh geo mat)) (\<lambda>particle.
     bind_prog (math_random e) (\<lambda>r1.
     bind_prog (math_random e) (\<lambda>r2.
     bind_prog (math_random e) (\<lambda>r3.
     bind_prog (math_random e) (\<lambda>r4.
     bind_prog (math_random e) (\<lambda>r5.
     bind_prog (math_random e) (\<lambda>r6.
       on_group (\<lambda>g. g\<lparr>g_children :=
         g_children g @ [place_particle particle r1 r2 r3 r4 r5 r6]\<rparr>))))))))"

text \<open>\<open>for (let i = 0; i < particleCount; i++)\<close>, from index \<open>i\<close> on.\<close>

function particle_loop :: "env \<Rightarrow> geometry \<Rightarrow> material \<Rightarrow> nat \<Rightarrow> nat \<Rightarrow> unit prog" where
  "particle_loop e geo mat i n s =
     (if i < n then
        (case particle_iter e geo mat i s of
           (Inl err, s') \<Rightarrow> (Inl err, s')
         | (Inr _, s') \<Rightarrow> particle_loop e geo mat (Suc i) n s')
      else (Inr (), s))"
  by pat_completeness auto
termination
  by (relation "measure (\<lambda>(e, geo, mat, i, n, s). n - i)") auto

declare particle_loop.simps [simp del]

definition init_particles :: "env \<Rightarrow> unit prog" where
  "init_particles e =
     bind_prog (lib e NewGroup \<lparr>g_rotation = zero_euler, g_children = []\<rparr>) (\<lambda>grp.
       andthen (modify (\<lambda>s. s\<lparr>group := Some grp\<rparr>))
      (bind_prog (lib e NewGeometry octahedron) (\<lambda>geo.
       bind_prog (lib e NewMaterial amber) (\<lambda>mat.
       andthen (particle_loop e geo mat 0 particleCount)
               (on_scene (\<lambda>sc. sc\<lparr>s_objects := s_objects sc @ [GroupObject]\<rparr>))))))"

fun light_position_set :: "scene_object \<Rightarrow> vector3 \<Rightarrow> scene_object" where
  "light_position_set (PointLight c i _) p = PointLight c i p"
| "light_position_set obj p = obj"

text \<open>Both lights are white, \<open>0xffffff\<close>.\<close>

definition init_lighting :: "env \<Rightarrow> unit prog" where
  "init_lighting e =
     bind_prog (lib e NewAmbientLight (AmbientLight 16777215 (2 / 10))) (\<lambda>ambientLight.
       andthen (on_scene (\<lambda>sc. sc\<lparr>s_objects := s_objects sc @ [ambientLight]\<rparr>))
      (bind_prog (lib e NewPointLight (PointLight 16777215 1 zero_vector)) (\<lambda>pointLight.
         on_scene (\<lambda>sc. sc\<lparr>s_objects := s_objects sc @
           [light_position_set pointLight \<lparr>vx = 5, vy = 5, vz = 5\<rparr>]\<rparr>))))"

definition add_resize_listener :: "unit prog" where
  "add_resize_listener = modify (\<lambda>s. s\<lparr>resize_listener := True\<rparr>)"

section \<open>The frame callback: \<open>animate\<close>\<close>

definition rotate_group :: "group3d \<Rightarrow> group3d" where
  "rotate_group g =
     (let g1 = g\<lparr>g_rotation := (g_rotation g)\<lparr>ex := js_add (ex (g_rotation g)) angle_step\<rparr>\<rparr>
      in g1\<lparr>g_rotation := (g_rotation g1)\<lparr>ey := js_add (ey (g_rotation g1)) angle_step\<rparr>\<rparr>)"

text \<open>\<open>renderer.render(scene, camera)\<close>: a TypeError when \<open>renderer\<close> is \<open>undefined\<close>, else the library call.\<close>

definition render :: "env \<Rightarrow> unit prog" where
  "render e s =
     (case renderer s of None \<Rightarrow> (Inl TypeError, s)
      | Some r \<Rightarrow> andthen (lib e Render ())
          (modify (\<lambda>s. s\<lparr>renderer := Some (r\<lparr>r_frames := r_frames r + 1\<rparr>)\<rparr>)) s)"

definition animate :: "env \<Rightarrow> unit prog" where
  "animate e =
     andthen (modify (\<lambda>s. s\<lparr>frame_requests := frame_requests s + 1\<rparr>))
    (andthen (modify (\<lambda>s. case group s of None \<Rightarrow> s
                          | Some g \<Rightarrow> s\<lparr>group := Some (rotate_group g)\<rparr>))
             (render e))"

text \<open>The body of the \<open>try\<close> block; \<open>return\<close> on a missing canvas is the first branch.\<close>

definition init_try :: "env \<Rightarrow> unit prog" where
  "init_try e =
     (if \<not> canvas_present e
      then modify (\<lambda>s. s\<lparr>console := console s @ [LogError ''3D Canvas not found.'' None]\<rparr>)
      else andthen (init_scene e)
          (andthen (init_camera e)
          (andthen (init_renderer e)
          (andthen (init_particles e)
          (andthen (init_lighting e)
          (andthen add_resize_listener
                   (animate e)))))))"

definition init_catch :: "env \<Rightarrow> js_error \<Rightarrow> gstate \<Rightarrow> gstate" where
  "init_catch e err s =
     (let s1 = s\<lparr>console := console s @ [LogError ''Error initializing 3D background:'' (Some err)]\<rparr>
      in if canvas_present e then s1\<lparr>canvas_hidden := True\<rparr> else s1)"

definition init3DBackground :: "env \<Rightarrow> unit prog" where
  "init3DBackground e s =
     (case init_try e s of
        (Inl err, s') \<Rightarrow> (Inr (), init_catch e err s')
      | (Inr _, s') \<Rightarrow> (Inr (), s'))"

section \<open>The resize handler: \<open>onWindowResize\<close>\<close>

definition onWindowResize :: "env \<Rightarrow> unit prog" where
  "onWindowResize e =
     andthen (on_camera (\<lambda>c. c\<lparr>c_aspect := js_div (innerWidth e) (innerHeight e)\<rparr>))
    (andthen (on_camera (\<lambda>c. c\<lparr>c_projection_aspect := c_aspect c\<rparr>))
    (andthen (set_size e)
             (set_pixel_ratio e)))"

text \<open>
  The host runs the frame callback once per frame, each time in the environment of that
  frame; what a frame throws is reported by the host and the state it wrote stays.
\<close>

fun ticks :: "env list \<Rightarrow> gstate \<Rightarrow> gstate" where
  "ticks [] s = s"
| "ticks (e # es) s = ticks es (snd (animate e s))"

section \<open>The page script: Firebase and the contact form\<close>

text \<open>
  What the host and the Firebase SDK supply to the second half of the script: the injected
  globals (\<open>None\<close> when \<open>typeof\<close> gives \<open>undefined\<close>), whether a string is valid JSON
  (the JSON grammar is not modelled), the SDK call that throws or rejects, if any (the two
  sign-in calls are the one stage \<open>SignIn\<close>), the signed-in user's id, and the UUID the
  host would generate (\<open>None\<close> when \<open>crypto.randomUUID\<close> throws).
\<close>

datatype fb_stage = InitializeApp | GetFirestore | GetAuth | SignIn

record page_env =
  firebase_config :: "string option"
  valid_json :: "string \<Rightarrow> bool"
  app_id_injected :: "string option"
  firebase_failure :: "fb_stage option"
  current_uid :: "string option"
  random_uuid :: "string option"
  user_id_display_present :: bool

record contact_doc =
  d_path :: string
  d_name :: string
  d_email :: string
  d_message :: string
  d_status :: string

text \<open>
  The module variables \<open>db\<close>, \<open>auth\<close> (set or not) and \<open>userId\<close>, the state of the 3D
  half, and the page state the script writes: the \<open>DOMContentLoaded\<close> listener, the text
  of the user-id display, the submit button, the form's status message, the documents
  written to the store and the form resets. \<open>firebase_calls\<close> counts the entries into
  \<open>initializeFirebase\<close>.
\<close>

record page_state =
  gfx :: gstate
  db :: bool
  auth :: bool
  userId :: "string option"
  dom_ready_listener :: bool
  firebase_calls :: nat
  user_id_text :: string
  button_disabled :: bool
  button_html :: string
  form_message_text :: string
  form_message_class :: string
  stored_docs :: "contact_doc list"
  form_resets :: nat

definition log_page :: "log_entry \<Rightarrow> page_state \<Rightarrow> page_state" where
  "log_page l p = p\<lparr>gfx := (gfx p)\<lparr>console := console (gfx p) @ [l]\<rparr>\<rparr>"

text \<open>A string is truthy when it is defined and not empty.\<close>

definition truthy :: "string option \<Rightarrow> bool" where
  "truthy v = (case v of None \<Rightarrow> False | Some x \<Rightarrow> x \<noteq> [])"

text \<open>A value inside a template literal: \<open>undefined\<close> prints as the word.\<close>

definition template_text :: "string option \<Rightarrow> string" where
  "template_text v = (case v of None \<Rightarrow> ''undefined'' | Some x \<Rightarrow> x)"

definition appId :: "page_env \<Rightarrow> string" where
  "appId pe = (case app_id_injected pe of Some a \<Rightarrow> a | None \<Rightarrow> ''default-app-id'')"

text \<open>\<open>JSON.parse(typeof __firebase_config !== 'undefined' ? __firebase_config : '{}')\<close>\<close>

definition parse_config :: "page_env \<Rightarrow> page_state \<Rightarrow> (js_error + unit) \<times> page_state" where
  "parse_config pe p =
     (case firebase_config pe of
        None \<Rightarrow> (Inr (), p)
      | Some c \<Rightarrow> if valid_json pe c then (Inr (), p) else (Inl SyntaxError, p))"

text \<open>
  \<open>initializeFirebase\<close>, up to the settlement of the sign-in promise. The assignments
  made before the failing call stay; the \<open>catch\<close> block logs and writes the display.
\<close>

definition firebase_catch :: "page_env \<Rightarrow> js_error \<Rightarrow> page_state \<Rightarrow> page_state" where
  "firebase_catch pe err p =
     (let p1 = log_page (LogError ''Firebase Initialization Error:'' (Some err)) p
      in if user_id_display_present pe then p1\<lparr>user_id_text := ''Firebase failed to load.''\<rparr> else p1)"

definition finish_sign_in :: "page_env \<Rightarrow> string \<Rightarrow> page_state \<Rightarrow> page_state" where
  "finish_sign_in pe uid p =
     (let p1 = p\<lparr>userId := Some uid\<rparr>
      in if user_id_display_present pe then p1\<lparr>user_id_text := ''User ID: '' @ uid\<rparr> else p1)"

definition initializeFirebase :: "page_env \<Rightarrow> page_state \<Rightarrow> page_state" where
  "initializeFirebase pe p0 =
     (let p = p0\<lparr>firebase_calls := firebase_calls p0 + 1\<rparr> in
      case firebase_failure pe of
        Some InitializeApp \<Rightarrow> firebase_catch pe FirebaseError p
      | Some GetFirestore \<Rightarrow> firebase_catch pe FirebaseError p
      | Some GetAuth \<Rightarrow> firebase_catch pe FirebaseError (p\<lparr>db := True\<rparr>)
      | Some SignIn \<Rightarrow> firebase_catch pe FirebaseError (p\<lparr>db := True, auth := True\<rparr>)
      | None \<Rightarrow>
          (let p1 = p\<lparr>db := True, auth := True\<rparr> in
           if truthy (current_uid pe) then finish_sign_in pe (template_text (current_uid pe)) p1
           else case random_uuid pe of
                  None \<Rightarrow> firebase_catch pe TypeError p1
                | Some u \<Rightarrow> finish_sign_in pe (''anon-'' @ u) p1))"

text \<open>
  \<open>document.addEventListener('DOMContentLoaded', ...)\<close> registers the listener and
  returns \<open>undefined\<close>.
\<close>

definition add_dom_ready_listener :: "page_state \<Rightarrow> jsval \<times> page_state" where
  "add_dom_ready_listener p = (Undefined, p\<lparr>dom_ready_listener := True\<rparr>)"

text \<open>
  Calling a value: every value of \<^typ>\<open>jsval\<close> is a number or \<open>undefined\<close>, none is
  callable, and the call throws a TypeError.
\<close>

fun call_value :: "jsval \<Rightarrow> page_state \<Rightarrow> (js_error + unit) \<times> page_state" where
  "call_value (Num _) p = (Inl TypeError, p)"
| "call_value PosInf p = (Inl TypeError, p)"
| "call_value NegInf p = (Inl TypeError, p)"
| "call_value NaN p = (Inl TypeError, p)"
| "call_value Undefined p = (Inl TypeError, p)"

text \<open>
  The top-level statements of the module in their order: \<open>init3DBackground()\<close>, the
  parse of the configuration, the registration statement with its trailing \<open>()\<close>, and
  \<open>initializeFirebase()\<close>.
\<close>

definition script_toplevel :: "env \<Rightarrow> page_env \<Rightarrow> page_state \<Rightarrow> (js_error + unit) \<times> page_state" where
  "script_toplevel e pe p0 =
     (case init3DBackground e (gfx p0) of
        (Inl err, g) \<Rightarrow> (Inl err, p0\<lparr>gfx := g\<rparr>)
      | (Inr _, g) \<Rightarrow>
          (case parse_config pe (p0\<lparr>gfx := g\<rparr>) of
             (Inl err, p1) \<Rightarrow> (Inl err, p1)
           | (Inr _, p1) \<Rightarrow>
               (case add_dom_ready_listener p1 of
                  (v, p2) \<Rightarrow>
                    (case call_value v p2 of
                       (Inl err, p3) \<Rightarrow> (Inl err, p3)
                     | (Inr _, p3) \<Rightarrow> (Inr (), initializeFirebase pe p3)))))"

definition initial_page :: page_state where
  "initial_page = \<lparr>gfx = initial_state, db = False, auth = False, userId = None,
     dom_ready_listener = False, firebase_calls = 0, user_id_text = [],
     button_disabled = False, button_html = [], form_message_text = [],
     form_message_class = [], stored_docs = [], form_resets = 0\<rparr>"

subsection \<open>The submit handler of the contact form\<close>

text \<open>
  What one submission reads: the values of the three inputs (\<open>None\<close> when the element is
  missing) and how the promise of \<open>addDoc\<close> settles, if it does.
\<close>

datatype add_doc_outcome = DocSaved | DocFailed | DocPending

record submit_env =
  name_field :: "string option"
  email_field :: "string option"
  message_field :: "string option"
  add_doc_result :: add_doc_outcome

text \<open>The promise of the \<open>async\<close> handler: fulfilled, rejected, or never settled.\<close>

datatype handler_end = Completed | Rejected js_error | Suspended

definition sending_label :: string where
  "sending_label = ''<span classclass='' @ [CHR 0x22] @ ''animate-spin mr-2'' @ [CHR 0x22]
     @ ''>...</span>Sending...''"

definition show_loading :: "page_state \<Rightarrow> page_state" where
  "show_loading p = p\<lparr>button_disabled := True, button_html := sending_label,
     form_message_class := ''mt-4 text-center text-yellow-400 text-sm font-medium'',
     form_message_text := ''Submitting message...''\<rparr>"

definition submit_catch :: "js_error \<Rightarrow> page_state \<Rightarrow> page_state" where
  "submit_catch err p =
     (log_page (LogError ''Form Submission Error:'' (Some err)) p)
       \<lparr>form_message_class := ''mt-4 text-center text-red-400 text-sm font-medium'',
        form_message_text := ''An error occurred. Please try again later.''\<rparr>"

definition restore_button :: "string \<Rightarrow> page_state \<Rightarrow> page_state" where
  "restore_button originalButtonText p =
     p\<lparr>button_disabled := False, button_html := originalButtonText\<rparr>"

text \<open>The body of the \<open>try\<close> block once \<open>addDoc\<close> has saved the document.\<close>

definition after_save :: "string \<Rightarrow> page_state \<Rightarrow> (js_error + unit) \<times> page_state" where
  "after_save name p =
     (let emailStatus = ''success'' in
      if emailStatus = ''success''
      then (Inr (), p\<lparr>form_message_class := ''mt-4 text-center text-green-400 text-sm font-medium'',
              form_message_text := ''Thanks for your response, '' @ name
                @ ''! Your message has been saved and forwarded.'',
              form_resets := form_resets p + 1\<rparr>)
      else (Inl (Error ''Mock email forwarding failed.''), p))"

definition contact_submit :: "page_env \<Rightarrow> submit_env \<Rightarrow> page_state \<Rightarrow> handler_end \<times> page_state" where
  "contact_submit pe se p =
     (if \<not> db p \<or> \<not> truthy (userId p)
      then (Completed, p\<lparr>form_message_text := ''Error: Connection not established. Please refresh.'',
              form_message_class := ''mt-4 text-center text-red-400 text-sm font-medium''\<rparr>)
      else case name_field se of None \<Rightarrow> (Rejected TypeError, p) | Some name \<Rightarrow>
           case email_field se of None \<Rightarrow> (Rejected TypeError, p) | Some email \<Rightarrow>
           case message_field se of None \<Rightarrow> (Rejected TypeError, p) | Some message \<Rightarrow>
        (let originalButtonText = button_html p;
             p1 = show_loading p;
             collectionPath = ''/artifacts/'' @ appId pe @ ''/users/'' @ template_text (userId p1)
               @ ''/contact_messages''
         in case add_doc_result se of
              DocPending \<Rightarrow> (Suspended, p1)
            | DocFailed \<Rightarrow>
                (Completed, restore_button originalButtonText (submit_catch FirebaseError p1))
            | DocSaved \<Rightarrow>
                (case after_save name (p1\<lparr>stored_docs := stored_docs p1 @
                        [\<lparr>d_path = collectionPath, d_name = name, d_email = email,
                          d_message = message, d_status = ''new''\<rparr>]\<rparr>) of
                   (Inl err, p2) \<Rightarrow> (Completed, restore_button originalButtonText (submit_catch err p2))
                 | (Inr _, p2) \<Rightarrow> (Completed, restore_button originalButtonText p2))))"

section \<open>Descriptions of the built state\<close>

text \<open>The particle that an iteration builds when its first draw is draw number \<open>d\<close>.\<close>

definition particle_of :: "env \<Rightarrow> geometry \<Rightarrow> material \<Rightarrow> nat \<Rightarrow> mesh" where
  "particle_of e geo mat d =
     place_particle (new_mesh geo mat) (random e d) (random e (d + 1)) (random e (d + 2))
       (random e (d + 3)) (random e (d + 4)) (random e (d + 5))"

fun particles_from :: "env \<Rightarrow> geometry \<Rightarrow> material \<Rightarrow> nat \<Rightarrow> nat \<Rightarrow> mesh list" where
  "particles_from e geo mat d 0 = []"
| "particles_from e geo mat d (Suc k) = particle_of e geo mat d # particles_from e geo mat (d + 6) k"

text \<open>The library calls of a run of \<open>init3DBackground\<close> that finds the canvas, in their order.\<close>

definition init_calls :: "site list" where
  "init_calls = [NewScene, NewCamera, NewRenderer, NewGroup, NewGeometry, NewMaterial]
     @ map NewMesh [0..<particleCount] @ [NewAmbientLight, NewPointLight, Render]"

text \<open>The value that \<open>n\<close> successive additions of \<open>0.0005\<close> make of \<open>v\<close>, each addition rounded.\<close>

fun accumulate :: "nat \<Rightarrow> jsval \<Rightarrow> jsval" where
  "accumulate 0 v = v"
| "accumulate (Suc n) v = js_add (accumulate n v) angle_step"

text \<open>The state after a run of \<open>init3DBackground\<close> in which the canvas is found and no call throws.\<close>

definition built_state :: "env \<Rightarrow> gstate \<Rightarrow> gstate" where
  "built_state e s =
     s\<lparr>scene := Some \<lparr>s_objects = [GroupObject, AmbientLight 16777215 (2 / 10),
                                    PointLight 16777215 1 \<lparr>vx = 5, vy = 5, vz = 5\<rparr>]\<rparr>,
       camera := Some ((new_camera e)\<lparr>c_position := \<lparr>vx = 0, vy = 0, vz = 15\<rparr>\<rparr>),
       renderer := Some \<lparr>r_alpha = True, r_width = innerWidth e, r_height = innerHeight e,
          r_pixel_ratio = min (devicePixelRatio e) 2, r_clear_color = 661807,
          r_clear_alpha = 1, r_frames = 1\<rparr>,
       group := Some \<lparr>g_rotation = \<lparr>ex = js_add (Num 0) angle_step,
                                         ey = js_add (Num 0) angle_step, ez = Num 0\<rparr>,
          g_children = particles_from e octahedron amber (draws s) particleCount\<rparr>,
       resize_listener := True,
       frame_requests := frame_requests s + 1,
       draws := draws s + 6 * particleCount,
       calls := calls s @ init_calls\<rparr>"

text \<open>The x and y rotation of the group are the same value, when there is a group.\<close>

definition rot_xy_equal :: "gstate \<Rightarrow> bool" where
  "rot_xy_equal s = (case group s of None \<Rightarrow> True
     | Some g \<Rightarrow> ex (g_rotation g) = ey (g_rotation g))"

text \<open>Concrete environments: a host with the canvas, an 800 by 600 viewport, every draw 1/2 and no failing call; the same host without WebGL; the same host in a frame whose render throws; a host without the canvas.\<close>

definition env_ok :: env where
  "env_ok = \<lparr>canvas_present = True, canvas_width = 300, canvas_height = 150,
     innerWidth = 800, innerHeight = 600, devicePixelRatio = 3,
     random = (\<lambda>_. 1 / 2), lib_fails = (\<lambda>_. False)\<rparr>"


definition env_render_fails :: env where
  "env_render_fails = env_ok\<lparr>lib_fails := (\<lambda>c. c = Render)\<rparr>"

definition env_no_canvas :: env where
  "env_no_canvas = env_ok\<lparr>canvas_present := False\<rparr>"

text \<open>The sampled transforms of a particle other than its rotation about y: the position inside the cube of side 50, the rotation about x and z in \<open>[0, \<pi>]\<close>, the uniform scale in \<open>[1/2, 1]\<close>.\<close>

definition sampled_in_range :: "mesh \<Rightarrow> bool" where
  "sampled_in_range p =
     (- 25 \<le> vx (m_position p) \<and> vx (m_position p) \<le> 25
      \<and> - 25 \<le> vy (m_position p) \<and> vy (m_position p) \<le> 25
      \<and> - 25 \<le> vz (m_position p) \<and> vz (m_position p) \<le> 25
      \<and> in_range 0 pi (ex (m_rotation p)) \<and> in_range 0 pi (ez (m_rotation p))
      \<and> 1 / 2 \<le> vx (m_scale p) \<and> vx (m_scale p) \<le> 1
      \<and> vy (m_scale p) = vx (m_scale p) \<and> vz (m_scale p) = vx (m_scale p))"

text \<open>A statement keeps a property of the state, whether it returns or throws.\<close>

definition keeps :: "(gstate \<Rightarrow> bool) \<Rightarrow> 'a prog \<Rightarrow> bool" where
  "keeps P m = (\<forall>s. P s \<longrightarrow> P (snd (m s)))"


text \<open>A page environment with nothing injected and a signed-in user, a page on which Firebase is connected, and a filled-in form whose document is saved.\<close>

definition page_env_ok :: page_env where
  "page_env_ok = \<lparr>firebase_config = None, valid_json = (\<lambda>_. False), app_id_injected = None,
     firebase_failure = None, current_uid = Some ''u1'',
     random_uuid = Some ''0000'', user_id_display_present = True\<rparr>"

definition connected_page :: page_state where
  "connected_page = initial_page\<lparr>db := True, auth := True, userId := Some ''u1'',
     button_html := ''Send Message''\<rparr>"

definition submit_ok :: submit_env where
  "submit_ok = \<lparr>name_field = Some ''Ada'', email_field = Some ''ada@example.org'',
     message_field = Some ''Hello'', add_doc_result = DocSaved\<rparr>"

section \<open>A run of \<open>init3DBackground\<close> in which nothing fails\<close>

lemma particle_iter_ok:
  assumes "\<not> lib_fails e (NewMesh i)" "group s = Some g"
  shows "particle_iter e geo mat i s =
     (Inr (), s\<lparr>group := Some (g\<lparr>g_children := g_children g @ [particle_of e geo mat (draws s)]\<rparr>),
                draws := draws s + 6, calls := calls s @ [NewMesh i]\<rparr>)"
  using assms
  by (simp add: particle_iter_def bind_prog_def lib_def math_random_def on_group_def
      particle_of_def Let_def eval_nat_numeral)

lemma particle_loop_ok:
  "\<forall>c. \<not> lib_fails e c \<Longrightarrow> group s = Some g \<Longrightarrow> i \<le> n \<Longrightarrow>
     particle_loop e geo mat i n s =
     (Inr (), s\<lparr>group := Some (g\<lparr>g_children := g_children g @ particles_from e geo mat (draws s) (n - i)\<rparr>),
                draws := draws s + 6 * (n - i), calls := calls s @ map NewMesh [i..<n]\<rparr>)"
proof (induction e geo mat i n s arbitrary: g rule: particle_loop.induct)
  case (1 e geo mat i n s)
  show ?case
  proof (cases "i < n")
    case False
    with 1 show ?thesis by (simp add: particle_loop.simps)
  next
    case True
    then obtain k where k: "n - i = Suc k" "n - Suc i = k" by (cases "n - i") auto
    from True have up: "[i..<n] = i # [Suc i..<n]" by (simp add: upt_rec)
    have it: "particle_iter e geo mat i s =
     (Inr (), s\<lparr>group := Some (g\<lparr>g_children := g_children g @ [particle_of e geo mat (draws s)]\<rparr>),
                draws := draws s + 6, calls := calls s @ [NewMesh i]\<rparr>)"
      using "1.prems" by (intro particle_iter_ok) auto
    show ?thesis
      apply (subst particle_loop.simps)
      using True k up "1.IH"[OF True it[symmetric] refl] "1.prems"
      apply (simp add: it)
      done
  qed
qed

lemma particle_loop_built:
  assumes "\<forall>c. \<not> lib_fails e c" "group s \<noteq> None" "i \<le> n"
  shows "particle_loop e geo mat i n s =
     (Inr (), s\<lparr>group := Some ((the (group s))\<lparr>g_children := g_children (the (group s)) @ particles_from e geo mat (draws s) (n - i)\<rparr>),
                draws := draws s + 6 * (n - i), calls := calls s @ map NewMesh [i..<n]\<rparr>)"
proof -
  from assms(2) obtain g where "group s = Some g" by auto
  from particle_loop_ok[OF assms(1) this assms(3)] this show ?thesis by simp
qed

lemma init_try_ok:
  assumes "canvas_present e" "\<forall>c. \<not> lib_fails e c"
  shows "init_try e s = (Inr (), built_state e s)"
  using assms
  by (simp add: init_try_def andthen_def bind_prog_def init_scene_def init_camera_def
      init_renderer_def init_particles_def init_lighting_def add_resize_listener_def
      animate_def render_def lib_def modify_def on_scene_def on_camera_def on_renderer_def
      on_group_def set_size_def set_pixel_ratio_def particle_loop_built built_state_def
      init_calls_def rotate_group_def zero_euler_def zero_vector_def
      new_renderer_def new_camera_def Let_def)

lemma init_ok:
  assumes "canvas_present e" "\<forall>c. \<not> lib_fails e c"
  shows "init3DBackground e s = (Inr (), built_state e s)"
  by (simp add: init3DBackground_def init_try_ok[OF assms])

lemma init_env_ok: "init3DBackground env_ok s = (Inr (), built_state env_ok s)"
  by (rule init_ok) (simp_all add: env_ok_def)

lemma length_particles_from: "length (particles_from e geo mat d k) = k"
  by (induction k arbitrary: d) auto

section \<open>Rounding to double precision\<close>

lemma round_half_even_near: "\<bar>real_of_int (round_half_even y) - y\<bar> \<le> 1 / 2"
proof -
  have "real_of_int \<lfloor>y\<rfloor> \<le> y" "y < real_of_int \<lfloor>y\<rfloor> + 1"
    by linarith+
  then show ?thesis
    by (auto simp: round_half_even_def Let_def)
qed

lemma round_half_even_bound:
  assumes "\<bar>y\<bar> < 2 ^ 53"
  shows "\<bar>real_of_int (round_half_even y)\<bar> \<le> 2 ^ 53"
proof -
  have "\<bar>real_of_int (round_half_even y)\<bar> < 2 ^ 53 + 1"
    using round_half_even_near[of y] assms by linarith
  then have "real_of_int \<bar>round_half_even y\<bar> < real_of_int (2 ^ 53 + 1)"
    by simp
  then have "\<bar>round_half_even y\<bar> < 2 ^ 53 + 1"
    by (simp only: of_int_less_iff)
  then have "\<bar>round_half_even y\<bar> \<le> 2 ^ 53"
    by linarith
  then have "real_of_int \<bar>round_half_even y\<bar> \<le> real_of_int (2 ^ 53)"
    by (simp only: of_int_le_iff)
  then show ?thesis
    by simp
qed

text \<open>A number \<open>y / 2^n\<close> with \<open>2^52 \<le> \<bar>y\<bar> < 2^53\<close> has the exponent \<open>52 - n\<close> and the unit \<open>1 / 2^n\<close>.\<close>

lemma double_exponent_scaled:
  assumes "2 ^ 52 \<le> \<bar>y\<bar>" "\<bar>y\<bar> < 2 ^ 53" "n \<le> 1074"
  shows "double_exponent (y / 2 ^ n) = 52 - int n"
proof -
  have pos: "0 < \<bar>y / 2 ^ n\<bar>"
    using assms(1) by (auto simp: field_simps)
  have "\<lfloor>log 2 \<bar>y / 2 ^ n\<bar>\<rfloor> = 52 - int n"
  proof (subst floor_log_eq_powr_iff[OF pos])
    show "(1::real) < 2" by simp
    have a: "2 powr real_of_int (52 - int n) = 2 ^ 52 / 2 ^ n"
      by (simp add: powr_diff powr_realpow)
    have b: "2 powr real_of_int (52 - int n + 1) = 2 ^ 53 / 2 ^ n"
      by (simp add: powr_diff powr_realpow algebra_simps)
    show "2 powr real_of_int (52 - int n) \<le> \<bar>y / 2 ^ n\<bar>
        \<and> \<bar>y / 2 ^ n\<bar> < 2 powr real_of_int (52 - int n + 1)"
      unfolding a b using assms(1,2)
      by (simp add: abs_divide divide_le_cancel divide_less_cancel)
  qed
  with assms(3) show ?thesis
    by (simp add: double_exponent_def)
qed

lemma double_ulp_scaled:
  assumes "2 ^ 52 \<le> \<bar>y\<bar>" "\<bar>y\<bar> < 2 ^ 53" "n \<le> 1074"
  shows "double_ulp (y / 2 ^ n) = 1 / 2 ^ n"
  by (simp add: double_ulp_def double_exponent_scaled[OF assms] powr_minus powr_realpow
      inverse_eq_divide)

lemma round_double_scaled:
  assumes "2 ^ 52 \<le> \<bar>y\<bar>" "\<bar>y\<bar> < 2 ^ 53" "n \<le> 1074"
  shows "round_double (y / 2 ^ n) = Num (real_of_int (round_half_even y) / 2 ^ n)"
proof -
  have nz: "y / 2 ^ n \<noteq> 0"
    using assms(1) by auto
  have "\<bar>real_of_int (round_half_even y) / 2 ^ n\<bar> \<le> 2 ^ 53 / 2 ^ n"
    using round_half_even_bound[OF assms(2)] by (simp add: abs_divide divide_right_mono)
  also have "\<dots> \<le> (2 ^ 53 :: real)"
    by (simp add: field_simps)
  also have "\<dots> < (2 ^ 1024 :: real)"
    by (rule power_strict_increasing) simp_all
  finally have small: "\<not> double_overflow \<le> \<bar>real_of_int (round_half_even y) / 2 ^ n\<bar>"
    by (simp only: double_overflow_def not_le)
  show ?thesis
    using nz small by (simp add: round_double_def double_ulp_scaled[OF assms] Let_def)
qed

text \<open>The form in which the rounding of a given number is computed.\<close>

lemma round_to_double:
  assumes "x = y / 2 ^ n" "2 ^ 52 \<le> \<bar>y\<bar>" "\<bar>y\<bar> < 2 ^ 53" "n \<le> 1074"
    "round_half_even y = q"
  shows "round_double x = Num (real_of_int q / 2 ^ n)"
  using round_double_scaled[OF assms(2,3,4)] assms(1,5) by simp

lemma angle_step_value: "angle_step = Num (4611686018427388 / 2 ^ 63)"
proof -
  have "round_double (5 / 10000) = Num (real_of_int 4611686018427388 / 2 ^ 63)"
    by (rule round_to_double [where y = "5 / 10000 * 2 ^ 63"])
      (simp_all add: round_half_even_def Let_def)
  then show ?thesis
    by (simp add: angle_step_def)
qed

lemma add_step:
  assumes "a + 4611686018427388 / 2 ^ 63 = y / 2 ^ n" "2 ^ 52 \<le> \<bar>y\<bar>" "\<bar>y\<bar> < 2 ^ 53"
    "n \<le> 1074" "round_half_even y = q"
  shows "js_add (Num a) angle_step = Num (real_of_int q / 2 ^ n)"
  using round_to_double[OF assms] by (simp add: js_add_def angle_step_value)

text \<open>
  The first ten sums. The first eight are exact; the ninth and the tenth fall halfway
  between two doubles and are rounded to the even one, upwards.
\<close>

lemma accumulate_1: "accumulate 1 (Num 0) = Num (4611686018427388 / 2 ^ 63)"
proof -
  have "js_add (Num 0) angle_step = Num (real_of_int 4611686018427388 / 2 ^ 63)"
    by (rule add_step [where y = 4611686018427388]) (simp_all add: round_half_even_def)
  then show ?thesis by simp
qed

lemma accumulate_2: "accumulate 2 (Num 0) = Num (4611686018427388 / 2 ^ 62)"
proof -
  have "js_add (Num (4611686018427388 / 2 ^ 63)) angle_step
      = Num (real_of_int 4611686018427388 / 2 ^ 62)"
    by (rule add_step [where y = 4611686018427388]) (simp_all add: round_half_even_def)
  then show ?thesis
    using accumulate_1 by (simp add: eval_nat_numeral)
qed

lemma accumulate_3: "accumulate 3 (Num 0) = Num (6917529027641082 / 2 ^ 62)"
proof -
  have "js_add (Num (4611686018427388 / 2 ^ 62)) angle_step
      = Num (real_of_int 6917529027641082 / 2 ^ 62)"
    by (rule add_step [where y = 6917529027641082]) (simp_all add: round_half_even_def)
  then show ?thesis
    using accumulate_2 by (simp add: eval_nat_numeral)
qed

lemma accumulate_4: "accumulate 4 (Num 0) = Num (4611686018427388 / 2 ^ 61)"
proof -
  have "js_add (Num (6917529027641082 / 2 ^ 62)) angle_step
      = Num (real_of_int 4611686018427388 / 2 ^ 61)"
    by (rule add_step [where y = 4611686018427388]) (simp_all add: round_half_even_def)
  then show ?thesis
    using accumulate_3 by (simp add: eval_nat_numeral)
qed

lemma accumulate_5: "accumulate 5 (Num 0) = Num (5764607523034235 / 2 ^ 61)"
proof -
  have "js_add (Num (4611686018427388 / 2 ^ 61)) angle_step
      = Num (real_of_int 5764607523034235 / 2 ^ 61)"
    by (rule add_step [where y = 5764607523034235]) (simp_all add: round_half_even_def)
  then show ?thesis
    using accumulate_4 by (simp add: eval_nat_numeral)
qed

lemma accumulate_6: "accumulate 6 (Num 0) = Num (6917529027641082 / 2 ^ 61)"
proof -
  have "js_add (Num (5764607523034235 / 2 ^ 61)) angle_step
      = Num (real_of_int 6917529027641082 / 2 ^ 61)"
    by (rule add_step [where y = 6917529027641082]) (simp_all add: round_half_even_def)
  then show ?thesis
    using accumulate_5 by (simp add: eval_nat_numeral)
qed

lemma accumulate_7: "accumulate 7 (Num 0) = Num (8070450532247929 / 2 ^ 61)"
proof -
  have "js_add (Num (6917529027641082 / 2 ^ 61)) angle_step
      = Num (real_of_int 8070450532247929 / 2 ^ 61)"
    by (rule add_step [where y = 8070450532247929]) (simp_all add: round_half_even_def)
  then show ?thesis
    using accumulate_6 by (simp add: eval_nat_numeral)
qed

lemma accumulate_8: "accumulate 8 (Num 0) = Num (4611686018427388 / 2 ^ 60)"
proof -
  have "js_add (Num (8070450532247929 / 2 ^ 61)) angle_step
      = Num (real_of_int 4611686018427388 / 2 ^ 60)"
    by (rule add_step [where y = 4611686018427388]) (simp_all add: round_half_even_def)
  then show ?thesis
    using accumulate_7 by (simp add: eval_nat_numeral)
qed

lemma accumulate_9: "accumulate 9 (Num 0) = Num (5188146770730812 / 2 ^ 60)"
proof -
  have "js_add (Num (4611686018427388 / 2 ^ 60)) angle_step
      = Num (real_of_int 5188146770730812 / 2 ^ 60)"
    by (rule add_step [where y = "10376293541461623 / 2"])
      (simp_all add: round_half_even_def Let_def)
  then show ?thesis
    using accumulate_8 by (simp add: eval_nat_numeral)
qed

lemma accumulate_10: "accumulate 10 (Num 0) = Num (5764607523034236 / 2 ^ 60)"
proof -
  have "js_add (Num (5188146770730812 / 2 ^ 60)) angle_step
      = Num (real_of_int 5764607523034236 / 2 ^ 60)"
    by (rule add_step [where y = "11529215046068471 / 2"])
      (simp_all add: round_half_even_def Let_def)
  then show ?thesis
    using accumulate_9 by (simp add: eval_nat_numeral)
qed

section \<open>The rotation of the group over the frames\<close>

lemma group_animate: "group (snd (animate e s)) = map_option rotate_group (group s)"
  by (auto simp: animate_def andthen_def bind_prog_def modify_def render_def lib_def Let_def
      split: option.splits)

lemma group_ticks: "group (ticks es s) = map_option (rotate_group ^^ length es) (group s)"
proof (induction es arbitrary: s)
  case Nil
  show ?case by (simp add: option.map_ident)
next
  case (Cons e es)
  show ?case
    by (simp add: Cons.IH group_animate option.map_comp funpow_swap1 comp_def)
qed

lemma rotate_group_pow:
  "(rotate_group ^^ n) \<lparr>g_rotation = \<lparr>ex = a, ey = b, ez = z\<rparr>, g_children = ps\<rparr> =
     \<lparr>g_rotation = \<lparr>ex = accumulate n a, ey = accumulate n b, ez = z\<rparr>, g_children = ps\<rparr>"
  by (induction n) (simp_all add: rotate_group_def Let_def)

lemma accumulate_first: "accumulate n (js_add v angle_step) = accumulate (Suc n) v"
  by (induction n) simp_all

text \<open>
  C1, as the code has it. \<open>init3DBackground\<close> ends with a call of \<open>animate\<close>, so the
  state it produces has already been rotated once, and each frame adds \<open>0.0005\<close> in
  double precision: after a run that finds the canvas and in which no call throws, and
  then \<open>N\<close> further frames (whether or not their render throws), the group's rotation
  about x and about y is the number that \<open>N + 1\<close> successive rounded additions of
  \<open>0.0005\<close> make of 0, its rotation about z is 0, and its children are the particles as
  the loop built them, position, rotation and scale included.
\<close>

theorem ticks_after_init:
  assumes "canvas_present e" "\<forall>c. \<not> lib_fails e c"
  shows "group (ticks es (snd (init3DBackground e initial_state))) =
      Some \<lparr>g_rotation = \<lparr>ex = accumulate (length es + 1) (Num 0),
                           ey = accumulate (length es + 1) (Num 0), ez = Num 0\<rparr>,
            g_children = particles_from e octahedron amber 0 particleCount\<rparr>
    \<and> map_option g_children (group (ticks es (snd (init3DBackground e initial_state)))) =
      map_option g_children (group (snd (init3DBackground e initial_state)))"
  by (simp add: init_ok[OF assms] group_ticks built_state_def rotate_group_pow initial_state_def
      accumulate_first)

text \<open>
  Three frames after the build, the render of the second throwing: the rotation is the
  double \<open>0.002\<close>, four times the double \<open>0.0005\<close>.
\<close>

theorem ticks_after_init_witness:
  "canvas_present env_ok \<and> (\<forall>c. \<not> lib_fails env_ok c) \<and>
   fst (animate env_render_fails (snd (init3DBackground env_ok initial_state)))
     = Inl (LibraryError Render) \<and>
   map_option g_rotation (group (ticks [env_ok, env_render_fails, env_ok]
       (snd (init3DBackground env_ok initial_state)))) =
     Some \<lparr>ex = Num (4611686018427388 / 2 ^ 61), ey = Num (4611686018427388 / 2 ^ 61),
           ez = Num 0\<rparr>"
proof -
  have f: "fst (animate env_render_fails (snd (init3DBackground env_ok initial_state)))
     = Inl (LibraryError Render)"
    by (simp add: init_env_ok built_state_def animate_def andthen_def bind_prog_def modify_def
        render_def lib_def env_render_fails_def Let_def)
  have c: "canvas_present env_ok" "\<forall>c. \<not> lib_fails env_ok c"
    by (simp_all add: env_ok_def)
  have a: "js_add (js_add (js_add (js_add (Num 0) angle_step) angle_step) angle_step) angle_step
      = Num (4611686018427388 / 2 ^ 61)"
    using accumulate_4 by (simp add: eval_nat_numeral)
  show ?thesis
    using ticks_after_init [of env_ok "[env_ok, env_render_fails, env_ok]"] f c
    by (simp add: a)
qed

text \<open>
  C1 as stated fails. At \<open>N = 0\<close>: in the state that \<open>init3DBackground\<close> produces, before
  any further frame, the rotation about x is the double \<open>0.0005\<close>, which is not
  \<open>0 * 0.0005\<close> and, lying strictly between 0 and \<open>2\<pi>\<close>, is not equal to it modulo
  \<open>2\<pi>\<close> either. At \<open>N = 9\<close>: nine frames later the rotation is the double
  \<open>0.005000000000000001\<close>, which is neither \<open>9 * 0.0005\<close> nor, the count put right,
  \<open>10 * 0.0005\<close>, be the product taken of the decimal, of the double, or rounded.
\<close>

theorem rotation_not_n_times_step:
  "map_option (ex \<circ> g_rotation) (group (ticks [] (snd (init3DBackground env_ok initial_state))))
     = Some (Num (4611686018427388 / 2 ^ 63))
   \<and> Num (4611686018427388 / 2 ^ 63) \<noteq> Num (real (length ([] :: env list)) * (5 / 10000))
   \<and> (0 :: real) < 4611686018427388 / 2 ^ 63 \<and> (4611686018427388 / 2 ^ 63 :: real) < 2 * pi
   \<and> map_option (ex \<circ> g_rotation)
        (group (ticks (replicate 9 env_ok) (snd (init3DBackground env_ok initial_state))))
     = Some (Num (5764607523034236 / 2 ^ 60))
   \<and> Num (5764607523034236 / 2 ^ 60) \<noteq> Num (real (length (replicate 9 env_ok)) * (5 / 10000))
   \<and> Num (5764607523034236 / 2 ^ 60) \<noteq> Num (10 * (5 / 10000))
   \<and> Num (5764607523034236 / 2 ^ 60) \<noteq> Num (10 * (4611686018427388 / 2 ^ 63))
   \<and> Num (5764607523034236 / 2 ^ 60) \<noteq> round_double (10 * (5 / 10000))"
proof -
  have p: "(4611686018427388 / 2 ^ 63 :: real) < 2 * pi"
    using pi_ge_two by simp
  have g: "group (ticks es (snd (init3DBackground env_ok initial_state))) =
      Some \<lparr>g_rotation = \<lparr>ex = accumulate (length es + 1) (Num 0),
                           ey = accumulate (length es + 1) (Num 0), ez = Num 0\<rparr>,
            g_children = particles_from env_ok octahedron amber 0 particleCount\<rparr>" for es
    by (simp add: init_env_ok group_ticks built_state_def rotate_group_pow initial_state_def
        accumulate_first)
  have a: "map_option (ex \<circ> g_rotation)
        (group (ticks [] (snd (init3DBackground env_ok initial_state))))
     = Some (Num (4611686018427388 / 2 ^ 63))"
    unfolding g using accumulate_1 by simp
  have b: "map_option (ex \<circ> g_rotation)
        (group (ticks (replicate 9 env_ok) (snd (init3DBackground env_ok initial_state))))
     = Some (Num (5764607523034236 / 2 ^ 60))"
    unfolding g using accumulate_10 by simp
  have "round_double (10 * (5 / 10000)) = Num (real_of_int 5764607523034235 / 2 ^ 60)"
    by (rule round_to_double [where y = "10 * (5 / 10000) * 2 ^ 60"])
      (simp_all add: round_half_even_def Let_def)
  then have r: "round_double (10 * (5 / 10000)) = Num (5764607523034235 / 2 ^ 60)"
    by simp
  have c1: "Num (4611686018427388 / 2 ^ 63) \<noteq> Num (real (length ([] :: env list)) * (5 / 10000))"
    by simp
  have c2: "(0 :: real) < 4611686018427388 / 2 ^ 63"
    by simp
  have c3: "Num (5764607523034236 / 2 ^ 60) \<noteq> Num (real (length (replicate 9 env_ok)) * (5 / 10000))"
    by simp
  have c4: "Num (5764607523034236 / 2 ^ 60) \<noteq> Num (10 * (5 / 10000))"
    by simp
  have c5: "Num (5764607523034236 / 2 ^ 60) \<noteq> Num (10 * (4611686018427388 / 2 ^ 63))"
    by simp
  have c6: "Num (5764607523034236 / 2 ^ 60) \<noteq> round_double (10 * (5 / 10000))"
    unfolding r by simp
  from a c1 c2 p b c3 c4 c5 c6 show ?thesis
    by (intro conjI)
qed

section \<open>The resize handler\<close>

lemma onWindowResize_ok:
  assumes "camera s = Some c" "renderer s = Some r"
  shows "onWindowResize e s = (Inr (),
     s\<lparr>camera := Some (c\<lparr>c_aspect := js_div (innerWidth e) (innerHeight e),
                          c_projection_aspect := js_div (innerWidth e) (innerHeight e)\<rparr>),
       renderer := Some (r\<lparr>r_width := innerWidth e, r_height := innerHeight e,
                            r_pixel_ratio := min (devicePixelRatio e) 2\<rparr>)\<rparr>)"
  using assms
  by (simp add: onWindowResize_def andthen_def bind_prog_def on_camera_def set_size_def
      set_pixel_ratio_def on_renderer_def)

text \<open>
  C2: when the camera and the renderer exist and the viewport is \<open>W\<close> by \<open>H\<close> with both
  positive, \<open>onWindowResize\<close> returns, the camera's aspect (and the aspect of its
  projection) is \<open>W / H\<close>, the renderer's pixel ratio is the smaller of the host's device
  pixel ratio and 2, and the renderer has the viewport's size.
\<close>

theorem resize_aspect_and_pixel_ratio:
  assumes "camera s = Some c" "renderer s = Some r" "0 < innerWidth e" "0 < innerHeight e"
  shows "fst (onWindowResize e s) = Inr ()
    \<and> map_option c_aspect (camera (snd (onWindowResize e s))) =
        Some (Num (real (innerWidth e) / real (innerHeight e)))
    \<and> map_option c_projection_aspect (camera (snd (onWindowResize e s))) =
        Some (Num (real (innerWidth e) / real (innerHeight e)))
    \<and> map_option r_pixel_ratio (renderer (snd (onWindowResize e s))) =
        Some (min (devicePixelRatio e) 2)
    \<and> map_option r_width (renderer (snd (onWindowResize e s))) = Some (innerWidth e)
    \<and> map_option r_height (renderer (snd (onWindowResize e s))) = Some (innerHeight e)"
  using assms(3,4) by (simp add: onWindowResize_ok[OF assms(1,2)] js_div_def)

text \<open>The built scene resized to 1024 by 768 on a host of device pixel ratio 3.\<close>

theorem resize_aspect_and_pixel_ratio_witness:
  "camera (snd (init3DBackground env_ok initial_state)) \<noteq> None
   \<and> renderer (snd (init3DBackground env_ok initial_state)) \<noteq> None
   \<and> (0::nat) < 1024 \<and> (0::nat) < 768
   \<and> fst (onWindowResize (env_ok\<lparr>innerWidth := 1024, innerHeight := 768\<rparr>)
        (snd (init3DBackground env_ok initial_state))) = Inr ()
   \<and> map_option c_aspect (camera (snd (onWindowResize (env_ok\<lparr>innerWidth := 1024, innerHeight := 768\<rparr>)
        (snd (init3DBackground env_ok initial_state))))) = Some (Num (1024 / 768))
   \<and> map_option r_pixel_ratio (renderer (snd (onWindowResize (env_ok\<lparr>innerWidth := 1024, innerHeight := 768\<rparr>)
        (snd (init3DBackground env_ok initial_state))))) = Some 2"
proof -
  let ?s = "snd (init3DBackground env_ok initial_state)"
  have c: "camera ?s = Some (the (camera ?s))"
    by (simp add: init_env_ok built_state_def)
  have r: "renderer ?s = Some (the (renderer ?s))"
    by (simp add: init_env_ok built_state_def)
  have d: "devicePixelRatio env_ok = 3"
    by (simp add: env_ok_def)
  have n: "camera ?s \<noteq> None" "renderer ?s \<noteq> None"
    by (simp_all add: init_env_ok built_state_def)
  show ?thesis
    using resize_aspect_and_pixel_ratio [OF c r, of "env_ok\<lparr>innerWidth := 1024, innerHeight := 768\<rparr>"] n
    by (simp add: d)
qed

section \<open>The two rotations of the group stay equal\<close>

lemma keepsD: "keeps P m \<Longrightarrow> P s \<Longrightarrow> P (snd (m s))"
  by (simp add: keeps_def)

lemma keeps_bind: "keeps P m \<Longrightarrow> (\<And>v. keeps P (f v)) \<Longrightarrow> keeps P (bind_prog m f)"
  by (auto simp: keeps_def bind_prog_def split: prod.splits sum.splits)

lemma keeps_andthen: "keeps P m \<Longrightarrow> keeps P n \<Longrightarrow> keeps P (andthen m n)"
  by (simp add: andthen_def keeps_bind)

lemma keeps_modify: "(\<And>s. P s \<Longrightarrow> P (f s)) \<Longrightarrow> keeps P (modify f)"
  by (simp add: keeps_def modify_def)

lemma keeps_lib: "(\<And>s x. P (s\<lparr>calls := x\<rparr>) = P s) \<Longrightarrow> keeps P (lib e c v)"
  by (simp add: keeps_def lib_def Let_def)

lemma keeps_random: "(\<And>s x. P (s\<lparr>draws := x\<rparr>) = P s) \<Longrightarrow> keeps P (math_random e)"
  by (simp add: keeps_def math_random_def)

lemma keeps_loop_step:
  "(\<forall>i. keeps P (particle_iter e geo mat i)) \<Longrightarrow> P s \<Longrightarrow>
     P (snd (particle_loop e geo mat i n s))"
proof (induction e geo mat i n s rule: particle_loop.induct)
  case (1 e geo mat i n s)
  show ?case
  proof (cases "i < n")
    case False
    with 1 show ?thesis by (simp add: particle_loop.simps)
  next
    case True
    obtain r s' where r: "particle_iter e geo mat i s = (r, s')"
      by (cases "particle_iter e geo mat i s")
    have P': "P s'"
      using "1.prems" r by (metis keepsD snd_conv)
    show ?thesis
    proof (cases r)
      case (Inl err)
      with True r P' show ?thesis by (subst particle_loop.simps) simp
    next
      case (Inr u)
      from "1.IH"[OF True r[symmetric] Inr "1.prems"(1) P'] True r Inr
      show ?thesis by (subst particle_loop.simps) simp
    qed
  qed
qed

lemma keeps_loop:
  "(\<And>i. keeps P (particle_iter e geo mat i)) \<Longrightarrow> keeps P (particle_loop e geo mat i n)"
  by (simp add: keeps_def keeps_loop_step)

lemma rot_simps [simp]:
  "rot_xy_equal (s\<lparr>calls := x1\<rparr>) = rot_xy_equal s"
  "rot_xy_equal (s\<lparr>draws := x2\<rparr>) = rot_xy_equal s"
  "rot_xy_equal (s\<lparr>scene := x3\<rparr>) = rot_xy_equal s"
  "rot_xy_equal (s\<lparr>camera := x4\<rparr>) = rot_xy_equal s"
  "rot_xy_equal (s\<lparr>renderer := x5\<rparr>) = rot_xy_equal s"
  "rot_xy_equal (s\<lparr>console := x6\<rparr>) = rot_xy_equal s"
  "rot_xy_equal (s\<lparr>canvas_hidden := x7\<rparr>) = rot_xy_equal s"
  "rot_xy_equal (s\<lparr>resize_listener := x8\<rparr>) = rot_xy_equal s"
  "rot_xy_equal (s\<lparr>frame_requests := x9\<rparr>) = rot_xy_equal s"
  by (simp_all add: rot_xy_equal_def)

lemma keeps_rot_on_scene: "keeps rot_xy_equal (on_scene f)"
  by (auto simp: keeps_def on_scene_def split: option.splits)

lemma keeps_rot_on_camera: "keeps rot_xy_equal (on_camera f)"
  by (auto simp: keeps_def on_camera_def split: option.splits)

lemma keeps_rot_on_renderer: "keeps rot_xy_equal (on_renderer f)"
  by (auto simp: keeps_def on_renderer_def split: option.splits)

lemma keeps_rot_on_group:
  "(\<And>g. g_rotation (f g) = g_rotation g) \<Longrightarrow> keeps rot_xy_equal (on_group f)"
  by (auto simp: keeps_def on_group_def rot_xy_equal_def split: option.splits)

lemma keeps_rot_iter: "keeps rot_xy_equal (particle_iter e geo mat i)"
  unfolding particle_iter_def
  by (intro keeps_bind keeps_lib keeps_random keeps_rot_on_group) simp_all

lemma keeps_rot_scene: "keeps rot_xy_equal (init_scene e)"
  unfolding init_scene_def
  by (intro keeps_bind keeps_lib keeps_modify) simp_all

lemma keeps_rot_camera: "keeps rot_xy_equal (init_camera e)"
  unfolding init_camera_def
  by (intro keeps_bind keeps_andthen keeps_lib keeps_modify keeps_rot_on_camera) simp_all

lemma keeps_rot_renderer: "keeps rot_xy_equal (init_renderer e)"
  unfolding init_renderer_def set_size_def set_pixel_ratio_def
  by (intro keeps_bind keeps_andthen keeps_lib keeps_modify keeps_rot_on_renderer) simp_all

lemma keeps_lib_bind:
  "(\<And>s x. P (s\<lparr>calls := x\<rparr>) = P s) \<Longrightarrow> keeps P (f v) \<Longrightarrow> keeps P (bind_prog (lib e c v) f)"
  by (auto simp: keeps_def bind_prog_def lib_def Let_def)

lemma keeps_rot_particles: "keeps rot_xy_equal (init_particles e)"
  unfolding init_particles_def
  by (intro keeps_lib_bind keeps_andthen keeps_modify keeps_loop keeps_rot_iter
      keeps_rot_on_scene)
    (simp_all add: rot_xy_equal_def zero_euler_def)

lemma keeps_rot_lighting: "keeps rot_xy_equal (init_lighting e)"
  unfolding init_lighting_def
  by (intro keeps_lib_bind keeps_andthen keeps_rot_on_scene) simp_all

lemma rotate_group_equal:
  "ex (g_rotation g) = ey (g_rotation g) \<Longrightarrow>
     ex (g_rotation (rotate_group g)) = ey (g_rotation (rotate_group g))"
  by (simp add: rotate_group_def Let_def)

lemma keeps_rot_animate: "keeps rot_xy_equal (animate e)"
  by (auto simp: keeps_def animate_def andthen_def bind_prog_def modify_def render_def
      lib_def Let_def rot_xy_equal_def rotate_group_equal split: option.splits)

lemma keeps_rot_init_try: "keeps rot_xy_equal (init_try e)"
  unfolding init_try_def add_resize_listener_def
  by (auto intro!: keeps_andthen keeps_modify keeps_rot_scene keeps_rot_camera
      keeps_rot_renderer keeps_rot_particles keeps_rot_lighting keeps_rot_animate)

lemma keeps_rot_init: "keeps rot_xy_equal (init3DBackground e)"
  using keeps_rot_init_try [of e]
  by (auto simp: keeps_def init3DBackground_def init_catch_def Let_def
      split: prod.splits sum.splits)

lemma rot_ticks: "rot_xy_equal s \<Longrightarrow> rot_xy_equal (ticks es s)"
  by (induction es arbitrary: s) (simp_all add: keepsD[OF keeps_rot_animate])

text \<open>
  C9: the rotation of the group about x equals its rotation about y. Both are 0 in the
  group as it is created; a frame keeps the equality, whatever it throws; and the
  equality holds in every state reached from the initial state by \<open>init3DBackground\<close>,
  whatever fails in it, followed by any number of frames.
\<close>

theorem rotation_x_equals_y:
  "rot_xy_equal (s\<lparr>group := Some \<lparr>g_rotation = zero_euler, g_children = []\<rparr>\<rparr>)
   \<and> (rot_xy_equal s \<longrightarrow> rot_xy_equal (snd (animate e s)))
   \<and> rot_xy_equal (ticks es (snd (init3DBackground e0 initial_state)))"
proof -
  have "rot_xy_equal initial_state"
    by (simp add: rot_xy_equal_def initial_state_def)
  then have "rot_xy_equal (ticks es (snd (init3DBackground e0 initial_state)))"
    by (intro rot_ticks keepsD[OF keeps_rot_init])
  then show ?thesis
    using keepsD[OF keeps_rot_animate, of s e]
    by (simp add: rot_xy_equal_def zero_euler_def)
qed

text \<open>
  The built scene and the frame after it: both rotations are the double \<open>0.001\<close>.
\<close>

theorem rotation_x_equals_y_witness:
  "rot_xy_equal (snd (init3DBackground env_ok initial_state))
   \<and> rot_xy_equal (snd (animate env_ok (snd (init3DBackground env_ok initial_state))))
   \<and> map_option g_rotation
        (group (snd (animate env_ok (snd (init3DBackground env_ok initial_state))))) =
       Some \<lparr>ex = Num (4611686018427388 / 2 ^ 62), ey = Num (4611686018427388 / 2 ^ 62),
             ez = Num 0\<rparr>"
proof -
  have a: "js_add (js_add (Num 0) angle_step) angle_step = Num (4611686018427388 / 2 ^ 62)"
    using accumulate_2 by (simp add: eval_nat_numeral)
  show ?thesis
    using rotation_x_equals_y [of "snd (init3DBackground env_ok initial_state)" env_ok "[]" env_ok]
    by (simp add: init_env_ok built_state_def group_animate rotate_group_def Let_def a)
qed

section \<open>The resize handler before and after the build\<close>

lemma camera_animate: "camera (snd (animate e s)) = camera s"
  by (auto simp: animate_def andthen_def bind_prog_def modify_def render_def lib_def Let_def
      split: option.splits)

lemma renderer_animate: "(renderer (snd (animate e s)) = None) = (renderer s = None)"
  by (auto simp: animate_def andthen_def bind_prog_def modify_def render_def lib_def Let_def
      split: option.splits)

lemma camera_ticks: "camera (ticks es s) = camera s"
  by (induction es arbitrary: s) (simp_all add: camera_animate)

lemma renderer_ticks: "(renderer (ticks es s) = None) = (renderer s = None)"
  by (induction es arbitrary: s) (simp_all add: renderer_animate)

lemma onWindowResize_result:
  "fst (onWindowResize e s) =
     (if camera s = None \<or> renderer s = None then Inl TypeError else Inr ())"
  by (auto simp: onWindowResize_def andthen_def bind_prog_def on_camera_def set_size_def
      set_pixel_ratio_def on_renderer_def split: option.splits)

text \<open>
  C7: \<open>onWindowResize\<close> has no guard. On the initial state, where nothing is built, it
  throws a TypeError and changes nothing; in general it throws a TypeError exactly when
  the camera or the renderer is \<open>undefined\<close>; and after a run of \<open>init3DBackground\<close>
  that found the canvas and in which no call threw, and any number of frames, it returns.
\<close>

theorem resize_faults_iff_uninitialised:
  "onWindowResize e initial_state = (Inl TypeError, initial_state)
   \<and> fst (onWindowResize e s) =
       (if camera s = None \<or> renderer s = None then Inl TypeError else Inr ())
   \<and> (canvas_present e0 \<and> (\<forall>c. \<not> lib_fails e0 c) \<longrightarrow>
        fst (onWindowResize e (ticks es (snd (init3DBackground e0 initial_state)))) = Inr ())"
proof -
  have a: "onWindowResize e initial_state = (Inl TypeError, initial_state)"
    by (simp add: onWindowResize_def andthen_def bind_prog_def on_camera_def initial_state_def)
  have b: "fst (onWindowResize e (ticks es (snd (init3DBackground e0 initial_state)))) = Inr ()"
    if "canvas_present e0" "\<forall>c. \<not> lib_fails e0 c"
    by (simp add: onWindowResize_result camera_ticks renderer_ticks init_ok[OF that]
        built_state_def)
  from a b show ?thesis
    by (simp add: onWindowResize_result)
qed

text \<open>
  The initial state, and the built scene two frames later.
\<close>

theorem resize_faults_iff_uninitialised_witness:
  "canvas_present env_ok \<and> (\<forall>c. \<not> lib_fails env_ok c)
   \<and> fst (onWindowResize env_ok (ticks [env_ok, env_ok] (snd (init3DBackground env_ok initial_state)))) = Inr ()
   \<and> fst (onWindowResize env_ok initial_state) = Inl TypeError"
  using resize_faults_iff_uninitialised [of env_ok initial_state env_ok "[env_ok, env_ok]"]
  by (simp add: env_ok_def)

section \<open>The outcomes of \<open>init3DBackground\<close>\<close>

text \<open>
  C4: without the canvas, \<open>init3DBackground\<close> returns without throwing and changes
  nothing but the console, to which it adds one error. From the initial state: no frame
  is requested, \<open>scene\<close>, \<open>camera\<close>, \<open>renderer\<close> and \<open>group\<close> stay \<open>undefined\<close>, the
  canvas is not hidden, no listener is registered and no library call is attempted.
\<close>

theorem init_without_canvas:
  assumes "\<not> canvas_present e"
  shows "init3DBackground e s =
           (Inr (), s\<lparr>console := console s @ [LogError ''3D Canvas not found.'' None]\<rparr>)
    \<and> fst (init3DBackground e initial_state) = Inr ()
    \<and> console (snd (init3DBackground e initial_state)) = [LogError ''3D Canvas not found.'' None]
    \<and> frame_requests (snd (init3DBackground e initial_state)) = 0
    \<and> scene (snd (init3DBackground e initial_state)) = None
    \<and> camera (snd (init3DBackground e initial_state)) = None
    \<and> renderer (snd (init3DBackground e initial_state)) = None
    \<and> group (snd (init3DBackground e initial_state)) = None
    \<and> \<not> canvas_hidden (snd (init3DBackground e initial_state))
    \<and> \<not> resize_listener (snd (init3DBackground e initial_state))
    \<and> calls (snd (init3DBackground e initial_state)) = []"
  using assms
  by (simp add: init3DBackground_def init_try_def modify_def initial_state_def)

text \<open>
  A host without the canvas.
\<close>

theorem init_without_canvas_witness:
  "\<not> canvas_present env_no_canvas
   \<and> init3DBackground env_no_canvas initial_state =
       (Inr (), initial_state\<lparr>console := [LogError ''3D Canvas not found.'' None]\<rparr>)"
  using init_without_canvas [of env_no_canvas initial_state]
  by (simp add: env_no_canvas_def env_ok_def initial_state_def)

text \<open>
  C6: with the canvas, an 800 by 600 viewport and no failing call, \<open>init3DBackground\<close>
  returns; the camera's aspect is \<open>800 / 600\<close>, the group has 500 children, one
  animation frame is requested and the resize listener is registered; the canvas is not
  hidden and nothing is logged.
\<close>

theorem init_800_by_600:
  assumes "canvas_present e" "innerWidth e = 800" "innerHeight e = 600"
    "\<forall>c. \<not> lib_fails e c"
  shows "fst (init3DBackground e initial_state) = Inr ()
    \<and> map_option c_aspect (camera (snd (init3DBackground e initial_state))) = Some (Num (800 / 600))
    \<and> map_option (length \<circ> g_children) (group (snd (init3DBackground e initial_state))) = Some 500
    \<and> frame_requests (snd (init3DBackground e initial_state)) = 1
    \<and> resize_listener (snd (init3DBackground e initial_state))
    \<and> \<not> canvas_hidden (snd (init3DBackground e initial_state))
    \<and> console (snd (init3DBackground e initial_state)) = []"
  using assms(2,3)
  by (simp add: init_ok[OF assms(1,4)] built_state_def new_camera_def js_div_def
      length_particles_from particleCount_def initial_state_def)

text \<open>
  The host \<open>env_ok\<close>: the aspect is \<open>4 / 3\<close>.
\<close>

theorem init_800_by_600_witness:
  "canvas_present env_ok \<and> innerWidth env_ok = 800 \<and> innerHeight env_ok = 600
   \<and> (\<forall>c. \<not> lib_fails env_ok c)
   \<and> map_option c_aspect (camera (snd (init3DBackground env_ok initial_state))) = Some (Num (4 / 3))
   \<and> map_option (length \<circ> g_children) (group (snd (init3DBackground env_ok initial_state))) = Some 500
   \<and> frame_requests (snd (init3DBackground env_ok initial_state)) = 1"
  using init_800_by_600 [of env_ok]
  by (simp add: env_ok_def)

lemma rotation_y_particles_from:
  "map (ey \<circ> m_rotation) (particles_from e geo mat d k) = replicate k Undefined"
  by (induction k arbitrary: d) (simp_all add: particle_of_def place_particle_def math_react_def)

text \<open>
  C3, where the code departs from it: in the built scene every one of the 500 particles
  has the rotation about y \<open>undefined\<close>, the value of \<open>Math.react\<close>, which is no number
  in \<open>[0, \<pi>]\<close>.
\<close>

theorem particle_rotation_y_undefined:
  "map_option (map (ey \<circ> m_rotation) \<circ> g_children)
      (group (snd (init3DBackground env_ok initial_state))) = Some (replicate 500 Undefined)
   \<and> \<not> in_range 0 pi Undefined"
  by (simp add: init_env_ok built_state_def rotation_y_particles_from particleCount_def
      in_range_def)

text \<open>
  The other sampled components are in their ranges, for every source of random numbers
  in \<open>[0, 1)\<close>.
\<close>

lemma pi_scaled: "0 \<le> r \<Longrightarrow> r < 1 \<Longrightarrow> 0 \<le> r * pi \<and> r * pi \<le> pi"
proof -
  assume r: "0 \<le> r" "r < 1"
  have "r * pi \<le> 1 * pi"
    using r by (intro mult_right_mono) simp_all
  with r show ?thesis by simp
qed

lemma particle_of_in_range:
  assumes "\<forall>i. 0 \<le> random e i \<and> random e i < 1"
  shows "sampled_in_range (particle_of e geo mat d)"
proof -
  have r: "0 \<le> random e i" "random e i < 1" for i
    using assms by auto
  show ?thesis
    unfolding sampled_in_range_def particle_of_def place_particle_def in_range_def
    using r[of d] r[of "d + 1"] r[of "d + 2"] r[of "d + 5"]
      pi_scaled[OF r[of "d + 3"]] pi_scaled[OF r[of "d + 4"]]
    by simp
qed

lemma particles_from_in_range:
  assumes "\<forall>i. 0 \<le> random e i \<and> random e i < 1"
  shows "list_all sampled_in_range (particles_from e geo mat d k)"
  by (induction k arbitrary: d) (simp_all add: particle_of_in_range[OF assms])

lemma built_particles_in_range:
  assumes "canvas_present e" "\<forall>c. \<not> lib_fails e c" "\<forall>i. 0 \<le> random e i \<and> random e i < 1"
  shows "map_option (list_all sampled_in_range \<circ> g_children)
           (group (snd (init3DBackground e s))) = Some True"
  by (simp add: init_ok[OF assms(1,2)] built_state_def particles_from_in_range[OF assms(3)])

subsection \<open>The library calls that a run attempts\<close>


























section \<open>The page script\<close>

lemma init_never_throws: "fst (init3DBackground e s) = Inr ()"
  by (simp add: init3DBackground_def split: prod.splits sum.splits)

lemma call_value_throws: "call_value v p = (Inl TypeError, p)"
  by (cases v) simp_all

text \<open>
  C8: the top level never enters \<open>initializeFirebase\<close>, so \<open>db\<close> and \<open>userId\<close> stay as
  they were; and when the parse of the configuration does not throw, the top level throws
  a TypeError at the registration statement, after the \<open>DOMContentLoaded\<close> listener has
  been registered.
\<close>

theorem toplevel_faults_before_firebase:
  "firebase_calls (snd (script_toplevel e pe p)) = firebase_calls p
   \<and> db (snd (script_toplevel e pe p)) = db p
   \<and> userId (snd (script_toplevel e pe p)) = userId p
   \<and> (fst (parse_config pe (p\<lparr>gfx := snd (init3DBackground e (gfx p))\<rparr>)) = Inr () \<longrightarrow>
        fst (script_toplevel e pe p) = Inl TypeError
        \<and> dom_ready_listener (snd (script_toplevel e pe p)))"
  using init_never_throws [of e "gfx p"]
  by (auto simp: script_toplevel_def parse_config_def add_dom_ready_listener_def
      call_value_throws split: prod.splits sum.splits option.splits)

text \<open>
  A host that injects nothing, from the initial page.
\<close>

theorem toplevel_faults_before_firebase_witness:
  "fst (parse_config page_env_ok (initial_page\<lparr>gfx := snd (init3DBackground env_ok (gfx initial_page))\<rparr>)) = Inr ()
   \<and> fst (script_toplevel env_ok page_env_ok initial_page) = Inl TypeError
   \<and> dom_ready_listener (snd (script_toplevel env_ok page_env_ok initial_page))
   \<and> \<not> dom_ready_listener initial_page
   \<and> firebase_calls (snd (script_toplevel env_ok page_env_ok initial_page)) = 0
   \<and> \<not> db (snd (script_toplevel env_ok page_env_ok initial_page))
   \<and> userId (snd (script_toplevel env_ok page_env_ok initial_page)) = None"
proof -
  have a: "fst (parse_config page_env_ok q) = Inr ()" for q
    by (simp add: parse_config_def page_env_ok_def)
  have b: "firebase_calls initial_page = 0" "\<not> db initial_page" "userId initial_page = None"
    "\<not> dom_ready_listener initial_page"
    by (simp_all add: initial_page_def)
  show ?thesis
    using toplevel_faults_before_firebase [of env_ok page_env_ok initial_page]
    by (simp add: a b)
qed

text \<open>
  C10: a submission that passes the connection check, finds the three inputs and whose
  \<open>addDoc\<close> promise settles, saved or failed, ends with the button enabled and its label
  as it was before; and whenever the handler ends at all, the label is as it was before.
\<close>

theorem submit_restores_button:
  "(db p \<and> truthy (userId p) \<and> name_field se \<noteq> None \<and> email_field se \<noteq> None
      \<and> message_field se \<noteq> None \<and> add_doc_result se \<noteq> DocPending \<longrightarrow>
     fst (contact_submit pe se p) = Completed
     \<and> \<not> button_disabled (snd (contact_submit pe se p))
     \<and> button_html (snd (contact_submit pe se p)) = button_html p)
   \<and> (fst (contact_submit pe se p) \<noteq> Suspended \<longrightarrow>
        button_html (snd (contact_submit pe se p)) = button_html p)"
  by (cases "add_doc_result se")
    (auto simp: contact_submit_def Let_def after_save_def restore_button_def submit_catch_def
      log_page_def show_loading_def split: option.splits)

text \<open>
  A saved and a failed submission on a connected page.
\<close>

theorem submit_restores_button_witness:
  "db connected_page \<and> truthy (userId connected_page)
   \<and> name_field submit_ok \<noteq> None \<and> email_field submit_ok \<noteq> None
   \<and> message_field submit_ok \<noteq> None \<and> add_doc_result submit_ok \<noteq> DocPending
   \<and> fst (contact_submit page_env_ok submit_ok connected_page) = Completed
   \<and> \<not> button_disabled (snd (contact_submit page_env_ok submit_ok connected_page))
   \<and> button_html (snd (contact_submit page_env_ok submit_ok connected_page)) = ''Send Message''
   \<and> fst (contact_submit page_env_ok (submit_ok\<lparr>add_doc_result := DocFailed\<rparr>) connected_page)
       = Completed
   \<and> \<not> button_disabled
        (snd (contact_submit page_env_ok (submit_ok\<lparr>add_doc_result := DocFailed\<rparr>) connected_page))"
proof -
  have a: "db connected_page" "truthy (userId connected_page)"
    "button_html connected_page = ''Send Message''"
    by (simp_all add: connected_page_def truthy_def)
  have b: "name_field submit_ok \<noteq> None" "email_field submit_ok \<noteq> None"
    "message_field submit_ok \<noteq> None" "add_doc_result submit_ok \<noteq> DocPending"
    by (simp_all add: submit_ok_def)
  show ?thesis
    using submit_restores_button [of connected_page submit_ok page_env_ok]
      submit_restores_button [of connected_page "submit_ok\<lparr>add_doc_result := DocFailed\<rparr>" page_env_ok]
      a b
    by simp
qed

end
